theory Spec2Isabelle
  imports Main
begin

section \<open>The MCP server proxy relay (mcp-server-proxy.ts)\<close>

text \<open>
  The class \<^verbatim>\<open>McpServerProxy\<close> bridges one local transport and one remote WebSocket.
  It is embedded as functions on an explicit state. The state holds the four private
  fields of the class and, beside them, the part of the host the class talks to: the
  sockets (readiness, listeners, what \<^verbatim>\<open>send\<close> does), the transports (what
  \<^verbatim>\<open>send\<close> and \<^verbatim>\<open>close\<close> do, the installed \<^verbatim>\<open>onmessage\<close>), the clock,
  the promise reactions that are registered but have not run yet, and a trace of every
  observable effect in the order it happens.
\<close>

subsection \<open>Values of the host language\<close>

text \<open>
  A JavaScript string is a sequence of UTF-16 code units; \<^verbatim>\<open>substring\<close> counts
  code units. A string literal of the source is written \<open>lit ''...''\<close>.
\<close>

type_synonym js_string = "nat list"

definition lit :: "string \<Rightarrow> js_string" where
  "lit cs = map of_char cs"

text \<open>A JSON value; of the numbers, the integers are enough here.\<close>

datatype json =
    JNull
  | JBool bool
  | JNum int
  | JStr js_string
  | JArr "json list"
  | JObj "(js_string \<times> json) list"

text \<open>\<^verbatim>\<open>string | ArrayBuffer\<close>: a text or a sequence of bytes.\<close>

datatype payload = Text js_string | Binary "nat list"

text \<open>A thrown value or a rejection reason.\<close>

datatype js_error = SyntaxError | HostError nat

text \<open>What a call into the host does: it returns, or it throws synchronously.\<close>

datatype 'a call = Returns 'a | Raises js_error

text \<open>
  What becomes of a promise the host returned: it is fulfilled, it is rejected, or it is
  not settled within the run that is observed.
\<close>

datatype settle = Fulfils | Rejects js_error | Pending

type_synonym ws_id = nat
type_synonym tr_id = nat

subsection \<open>Effects\<close>

text \<open>One constructor per console call of the source, in source order.\<close>

datatype log_line =
    Log_setting_null
  | Log_setting_connection nat
  | Log_ws_closed
  | Log_ws_error
  | Log_updating_state
  | Log_connection_check bool bool "nat option" string int int bool
  | Err_forwarding_to_transport js_error
  | Err_parsing_proxy_message js_error
  | Log_new_transport
  | Err_sending_disconnect js_error
  | Log_setting_transport
  | Log_attempting_forward
  | Log_connection_status bool
  | Log_sending
  | Err_sending_to_proxy js_error
  | Warn_cannot_forward js_string

datatype event =
    Console log_line
  | Transport_send tr_id json
  | Transport_close tr_id
  | Socket_send ws_id payload
  | Unhandled_rejection js_error

text \<open>The two closures \<^verbatim>\<open>setProxyConnection\<close> registers on a socket.\<close>

datatype listener = On_close | On_error

text \<open>
  What \<^verbatim>\<open>onmessage\<close> of a transport holds: the closure \<^verbatim>\<open>connect\<close> installs, or a
  callback of somebody else.
\<close>

datatype handler = Relay_forward | Foreign nat

text \<open>
  A reaction job: a callback that was registered on a promise and has not run yet. Each
  \<^verbatim>\<open>.catch\<close> and each \<^verbatim>\<open>.finally\<close> is a job of its own, and the job of a
  \<^verbatim>\<open>.finally\<close> is queued only when the \<^verbatim>\<open>.catch\<close> before it has run.
  \<^item> \<open>After_forward p\<close> is \<^verbatim>\<open>.catch(log)\<close> on the promise \<open>p\<close> that
    \<^verbatim>\<open>handleProxyMessage\<close> got from the transport's \<^verbatim>\<open>send\<close>;
  \<^item> \<open>After_disconnect p\<close> is \<^verbatim>\<open>.catch(log)\<close> on the promise \<open>p\<close> that
    \<^verbatim>\<open>connect\<close> got from the previous transport's \<^verbatim>\<open>send\<close>;
  \<^item> \<open>Run_finally\<close> is the \<^verbatim>\<open>.finally(close)\<close> chained behind that \<^verbatim>\<open>.catch\<close>.
\<close>

datatype reaction = After_forward settle | After_disconnect settle | Run_finally

subsection \<open>State\<close>

record state =
  proxyConnection :: "ws_id option"
  connectedTransport :: "tr_id option"
  isProxyConnected :: bool
  lastConnectionTime :: int
  date_now :: int
  ws_readyState :: "ws_id \<Rightarrow> nat"
  ws_send :: "ws_id \<Rightarrow> payload \<Rightarrow> unit call"
  ws_listeners :: "ws_id \<Rightarrow> listener list"
  tr_send :: "tr_id \<Rightarrow> (json \<Rightarrow> settle call) option"
  tr_close :: "tr_id \<Rightarrow> settle call option"
  tr_onmessage :: "tr_id \<Rightarrow> handler option"
  reactions :: "reaction list"
  trace :: "event list"

text \<open>
  Three functions of the platform are called and not defined by the class; they are
  parameters of the functions below that call them:
  \<^item> \<open>parse\<close> is \<^verbatim>\<open>JSON.parse\<close>, with \<open>None\<close> when it throws its SyntaxError;
  \<^item> \<open>decode\<close> is \<^verbatim>\<open>new TextDecoder().decode\<close>;
  \<^item> \<open>stringify\<close> is \<^verbatim>\<open>JSON.stringify\<close>.
\<close>

definition emit :: "event \<Rightarrow> state \<Rightarrow> state" where
  "emit e s = s\<lparr>trace := trace s @ [e]\<rparr>"

definition log :: "log_line \<Rightarrow> state \<Rightarrow> state" where
  "log l s = emit (Console l) s"

definition enqueue :: "reaction \<Rightarrow> state \<Rightarrow> state" where
  "enqueue r s = s\<lparr>reactions := reactions s @ [r]\<rparr>"

definition addEventListener :: "ws_id \<Rightarrow> listener \<Rightarrow> state \<Rightarrow> state" where
  "addEventListener w l s = s\<lparr>ws_listeners := (ws_listeners s)(w := ws_listeners s w @ [l])\<rparr>"

subsection \<open>setProxyConnection and the listeners it installs\<close>

definition setProxyConnection :: "ws_id option \<Rightarrow> state \<Rightarrow> state" where
  "setProxyConnection webSocket s =
     (case webSocket of
        None \<Rightarrow> (log Log_setting_null s)\<lparr>proxyConnection := None, isProxyConnected := False\<rparr>
      | Some w \<Rightarrow>
          (let s1 = log (Log_setting_connection (ws_readyState s w)) s;
               s2 = s1\<lparr>proxyConnection := Some w, isProxyConnected := True,
                       lastConnectionTime := date_now s1\<rparr>;
               s3 = addEventListener w On_close s2
           in addEventListener w On_error s3))"

fun run_listener :: "listener \<Rightarrow> state \<Rightarrow> state" where
  "run_listener On_close s =
     (log Log_ws_closed s)\<lparr>isProxyConnected := False, proxyConnection := None\<rparr>"
| "run_listener On_error s =
     (log Log_ws_error s)\<lparr>isProxyConnected := False\<rparr>"

text \<open>
  The socket \<open>w\<close> fires an event: the listeners registered on \<open>w\<close> for that event run in
  the order of their registration.
\<close>

definition dispatch :: "listener \<Rightarrow> ws_id \<Rightarrow> state \<Rightarrow> state" where
  "dispatch ev w s = fold run_listener (filter (\<lambda>l. l = ev) (ws_listeners s w)) s"

subsection \<open>isConnected\<close>

fun readyStateText :: "nat option \<Rightarrow> string" where
  "readyStateText rs =
     (if rs = Some 0 then ''CONNECTING''
      else if rs = Some 1 then ''OPEN''
      else if rs = Some 2 then ''CLOSING''
      else if rs = Some 3 then ''CLOSED'' else ''UNKNOWN'')"

text \<open>
  \<open>readyState\<close> is \<open>None\<close> for \<^verbatim>\<open>undefined\<close>, the value of
  \<^verbatim>\<open>this.proxyConnection?.readyState\<close> when there is no socket. The timestamp is logged
  as the number it is (\<^verbatim>\<open>toISOString\<close> only formats it).
\<close>

definition isConnected :: "state \<Rightarrow> bool \<times> state" where
  "isConnected s =
     (let hasConnection = (proxyConnection s \<noteq> None);
          isMarkedConnected = isProxyConnected s;
          readyState = map_option (ws_readyState s) (proxyConnection s);
          s1 = (if proxyConnection s \<noteq> None \<and> (readyState = Some 3 \<or> readyState = Some 2)
                   \<and> isProxyConnected s
                then (log Log_updating_state s)\<lparr>isProxyConnected := False\<rparr>
                else s);
          actuallyConnected = (hasConnection \<and> isMarkedConnected \<and> readyState \<noteq> Some 3);
          s2 = (if \<not> actuallyConnected \<or> readyState \<noteq> Some 1
                then log (Log_connection_check hasConnection isMarkedConnected readyState
                            (readyStateText readyState) (lastConnectionTime s1)
                            (date_now s1 - lastConnectionTime s1) actuallyConnected) s1
                else s1)
      in (actuallyConnected, s2))"

subsection \<open>handleProxyMessage\<close>

definition message_text :: "(nat list \<Rightarrow> js_string) \<Rightarrow> payload \<Rightarrow> js_string" where
  "message_text decode data = (case data of Text t \<Rightarrow> t | Binary b \<Rightarrow> decode b)"

text \<open>The body of the \<^verbatim>\<open>try\<close> block: \<open>Inl e\<close> when it throws \<open>e\<close>.\<close>

definition handleProxyMessage_try ::
  "(js_string \<Rightarrow> json option) \<Rightarrow> (nat list \<Rightarrow> js_string) \<Rightarrow> payload \<Rightarrow> state
     \<Rightarrow> (js_error + unit) \<times> state" where
  "handleProxyMessage_try parse decode data s =
     (case parse (message_text decode data) of
        None \<Rightarrow> (Inl SyntaxError, s)
      | Some message \<Rightarrow>
          (case connectedTransport s of
             None \<Rightarrow> (Inr (), s)
           | Some t \<Rightarrow>
               (case tr_send s t of
                  None \<Rightarrow> (Inr (), s)
                | Some f \<Rightarrow>
                    (let s1 = emit (Transport_send t message) s
                     in case f message of
                          Raises e \<Rightarrow> (Inl e, s1)
                        | Returns pr \<Rightarrow> (Inr (), enqueue (After_forward pr) s1)))))"

definition handleProxyMessage ::
  "(js_string \<Rightarrow> json option) \<Rightarrow> (nat list \<Rightarrow> js_string) \<Rightarrow> payload \<Rightarrow> state
     \<Rightarrow> (js_error + unit) \<times> state" where
  "handleProxyMessage parse decode data s =
     (case handleProxyMessage_try parse decode data s of
        (Inl e, s1) \<Rightarrow> (Inr (), log (Err_parsing_proxy_message e) s1)
      | (Inr u, s1) \<Rightarrow> (Inr u, s1))"

subsection \<open>connect\<close>

definition disconnectMessage :: json where
  "disconnectMessage =
     JObj [(lit ''jsonrpc'', JStr (lit ''2.0'')),
           (lit ''method'', JStr (lit ''notifications/cancelled'')),
           (lit ''params'',
              JObj [(lit ''reason'',
                     JStr (lit ''New client connected, previous connection terminated''))])]"

text \<open>
  The body of the \<^verbatim>\<open>async\<close> function up to its end (it has no \<^verbatim>\<open>await\<close>, so it runs
  in one piece). \<open>Inl e\<close>: the promise it returns is rejected with \<open>e\<close>. The optional call
  \<^verbatim>\<open>send?.(...)\<close> skips the whole chain when the transport has no \<^verbatim>\<open>send\<close>.
\<close>

definition connect :: "tr_id \<Rightarrow> state \<Rightarrow> (js_error + unit) \<times> state" where
  "connect transport s =
     (let (r, s3) =
            (case connectedTransport s of
               None \<Rightarrow> (Inr (), s)
             | Some prev \<Rightarrow>
                 (let s1 = log Log_new_transport s
                  in case tr_send s1 prev of
                       None \<Rightarrow> (Inr (), s1)
                     | Some f \<Rightarrow>
                         (let s2 = emit (Transport_send prev disconnectMessage) s1
                          in case f disconnectMessage of
                               Raises e \<Rightarrow> (Inl e, s2)
                             | Returns pr \<Rightarrow> (Inr (), enqueue (After_disconnect pr) s2))))
      in case r of
           Inl e \<Rightarrow> (Inl e, s3)
         | Inr u \<Rightarrow>
             (let s4 = s3\<lparr>connectedTransport := Some transport\<rparr>;
                  s5 = log Log_setting_transport s4
              in (Inr (), s5\<lparr>tr_onmessage := (tr_onmessage s5)(transport := Some Relay_forward)\<rparr>)))"

subsection \<open>Promise reactions\<close>

text \<open>
  The callback given to \<^verbatim>\<open>finally\<close>: \<^verbatim>\<open>this.connectedTransport?.close?.()\<close>, read
  when the callback runs. The promise \<^verbatim>\<open>close\<close> returns is dropped and a throw inside
  the callback rejects the promise of \<^verbatim>\<open>finally\<close>, which nobody handles.
\<close>

definition finally_close :: "state \<Rightarrow> state" where
  "finally_close s =
     (case connectedTransport s of
        None \<Rightarrow> s
      | Some t \<Rightarrow>
          (case tr_close s t of
             None \<Rightarrow> s
           | Some c \<Rightarrow>
               (let s1 = emit (Transport_close t) s
                in case c of
                     Returns Fulfils \<Rightarrow> s1
                   | Returns Pending \<Rightarrow> s1
                   | Returns (Rejects e) \<Rightarrow> emit (Unhandled_rejection e) s1
                   | Raises e \<Rightarrow> emit (Unhandled_rejection e) s1)))"

text \<open>
  One job runs. The \<^verbatim>\<open>.catch\<close> of \<^verbatim>\<open>connect\<close> logs a rejection and, once its promise
  has settled either way, queues the \<^verbatim>\<open>.finally\<close> job behind every job that is
  already waiting. A job on a promise that does not settle never runs.
\<close>

fun run_reaction :: "reaction \<Rightarrow> state \<Rightarrow> state" where
  "run_reaction (After_forward Fulfils) s = s"
| "run_reaction (After_forward (Rejects e)) s = log (Err_forwarding_to_transport e) s"
| "run_reaction (After_forward Pending) s = s"
| "run_reaction (After_disconnect Fulfils) s = enqueue Run_finally s"
| "run_reaction (After_disconnect (Rejects e)) s =
     enqueue Run_finally (log (Err_sending_disconnect e) s)"
| "run_reaction (After_disconnect Pending) s = s"
| "run_reaction Run_finally s = finally_close s"

text \<open>How many jobs a waiting job still stands for.\<close>

fun pending_steps :: "reaction \<Rightarrow> nat" where
  "pending_steps (After_disconnect p) = 2"
| "pending_steps r = 1"

text \<open>
  The host runs the waiting jobs after the function that registered them has returned:
  always the oldest first, until none is left. The promises are taken to settle in the
  order in which their first reactions were registered.
\<close>

function run_reactions :: "state \<Rightarrow> state" where
  "run_reactions s =
     (case reactions s of
        [] \<Rightarrow> s
      | r # rs \<Rightarrow> run_reactions (run_reaction r (s\<lparr>reactions := rs\<rparr>)))"
  by pat_completeness auto
termination
proof (relation "measure (\<lambda>s. sum_list (map pending_steps (reactions s)))")
  show "wf (measure (\<lambda>s. sum_list (map pending_steps (reactions s))))"
    by simp
next
  fix s :: state and r rs
  assume "reactions s = r # rs"
  then show "(run_reaction r (s\<lparr>reactions := rs\<rparr>), s)
               \<in> measure (\<lambda>s. sum_list (map pending_steps (reactions s)))"
    by (cases "(r, s\<lparr>reactions := rs\<rparr>)" rule: run_reaction.cases)
      (simp_all add: enqueue_def log_def emit_def finally_close_def Let_def
        split: option.splits call.splits settle.splits)
qed

subsection \<open>forwardToProxy\<close>

definition preview :: "payload \<Rightarrow> js_string" where
  "preview data = (case data of Text t \<Rightarrow> take 100 t @ lit ''...'' | Binary b \<Rightarrow> lit ''[Binary Data]'')"

definition forwardToProxy :: "payload \<Rightarrow> state \<Rightarrow> (js_error + unit) \<times> state" where
  "forwardToProxy data s =
     (let s1 = log Log_attempting_forward s;
          (c, s2) = isConnected s1;
          s3 = log (Log_connection_status c) s2
      in case (if c then proxyConnection s3 else None) of
           Some w \<Rightarrow>
             (let s4 = log Log_sending s3;
                  s5 = emit (Socket_send w data) s4
              in case ws_send s5 w data of
                   Returns u \<Rightarrow> (Inr (), s5)
                 | Raises e \<Rightarrow> (Inr (), (log (Err_sending_to_proxy e) s5)\<lparr>isProxyConnected := False\<rparr>))
         | None \<Rightarrow> (Inr (), log (Warn_cannot_forward (preview data)) s3))"

text \<open>A transport delivers a message of its session to whatever \<^verbatim>\<open>onmessage\<close> holds.\<close>

definition transport_onmessage ::
  "(json \<Rightarrow> js_string) \<Rightarrow> tr_id \<Rightarrow> json \<Rightarrow> state \<Rightarrow> (js_error + unit) \<times> state" where
  "transport_onmessage stringify t message s =
     (case tr_onmessage s t of
        Some Relay_forward \<Rightarrow> forwardToProxy (Text (stringify message)) s
      | Some (Foreign k) \<Rightarrow> (Inr (), s)
      | None \<Rightarrow> (Inr (), s))"

subsection \<open>Reading the trace\<close>

fun socket_sends :: "event list \<Rightarrow> (ws_id \<times> payload) list" where
  "socket_sends [] = []"
| "socket_sends (Socket_send w d # es) = (w, d) # socket_sends es"
| "socket_sends (e # es) = socket_sends es"

fun is_transport_io :: "event \<Rightarrow> bool" where
  "is_transport_io (Transport_send t m) = True"
| "is_transport_io (Transport_close t) = True"
| "is_transport_io e = False"

definition transport_io :: "event list \<Rightarrow> event list" where
  "transport_io es = filter is_transport_io es"

subsection \<open>Later calls, and the type of a message\<close>

text \<open>
  Between two calls the host may change what the sockets report and the clock moves on;
  \<open>recheck (rs, t)\<close> is the call of \<^verbatim>\<open>isConnected\<close> that comes after such a change.
\<close>

definition recheck :: "(ws_id \<Rightarrow> nat) \<times> int \<Rightarrow> state \<Rightarrow> bool \<times> state" where
  "recheck h s = isConnected (s\<lparr>ws_readyState := fst h, date_now := snd h\<rparr>)"

text \<open>
  The source casts the parsed value to \<^verbatim>\<open>JSONRPCMessage\<close> without looking at it. That
  type belongs to the protocol SDK and is declared outside these sources; each of its
  variants is an object whose member \<^verbatim>\<open>jsonrpc\<close> is the string \<^verbatim>\<open>2.0\<close>. The
  predicate checks this much, which every such message satisfies.
\<close>

fun is_JSONRPCMessage :: "json \<Rightarrow> bool" where
  "is_JSONRPCMessage (JObj kvs) = (map_of kvs (lit ''jsonrpc'') = Some (JStr (lit ''2.0'')))"
| "is_JSONRPCMessage j = False"

subsection \<open>Concrete inputs\<close>

text \<open>
  A relay as the constructor leaves it, on a host where every socket is open, nothing
  fails and nothing is registered yet.
\<close>

definition fresh :: state where
  "fresh = \<lparr> proxyConnection = None, connectedTransport = None, isProxyConnected = False,
             lastConnectionTime = 0, date_now = 1000,
             ws_readyState = (\<lambda>w. 1), ws_send = (\<lambda>w d. Returns ()),
             ws_listeners = (\<lambda>w. []),
             tr_send = (\<lambda>t. Some (\<lambda>m. Returns Fulfils)),
             tr_close = (\<lambda>t. Some (Returns Fulfils)),
             tr_onmessage = (\<lambda>t. None), reactions = [], trace = [] \<rparr>"

text \<open>
  A relay that holds the socket \<open>w\<close> and has it marked as connected, while the sockets
  report the readiness \<open>rs\<close>.
\<close>

definition attached :: "ws_id \<Rightarrow> nat \<Rightarrow> state" where
  "attached w rs = fresh\<lparr>proxyConnection := Some w, isProxyConnected := True,
                         ws_readyState := (\<lambda>x. rs)\<rparr>"

text \<open>
  A response message and its text, and \<^verbatim>\<open>JSON.parse\<close> as far as the examples need it:
  it is right on the text \<^verbatim>\<open>null\<close>, on the text of the response and on
  \<^verbatim>\<open>not json\<close>; no other text occurs in an example. Likewise the decoder is right on
  bytes below 128, where one byte is one code unit.
\<close>

definition ping_result_text :: js_string where
  \<open>ping_result_text = lit ''{"jsonrpc":"2.0","id":1,"result":{}}''\<close>

definition ping_result :: json where
  "ping_result = JObj [(lit ''jsonrpc'', JStr (lit ''2.0'')), (lit ''id'', JNum 1),
                       (lit ''result'', JObj [])]"

definition sample_parse :: "js_string \<Rightarrow> json option" where
  "sample_parse t =
     (if t = lit ''null'' then Some JNull
      else if t = ping_result_text then Some ping_result
      else None)"

definition ascii_decode :: "nat list \<Rightarrow> js_string" where
  "ascii_decode bs = bs"

text \<open>
  Transport 1 has connected to a new relay, and \<^verbatim>\<open>send\<close> of every transport does
  \<open>c\<close>.
\<close>

definition failing_sink :: "settle call \<Rightarrow> state" where
  "failing_sink c = (snd (connect 1 fresh))\<lparr>tr_send := (\<lambda>t. Some (\<lambda>m. c))\<rparr>"

section \<open>Basic facts\<close>

declare readyStateText.simps [simp del]

lemma emit_fields [simp]:
  "proxyConnection (emit e s) = proxyConnection s"
  "connectedTransport (emit e s) = connectedTransport s"
  "isProxyConnected (emit e s) = isProxyConnected s"
  "lastConnectionTime (emit e s) = lastConnectionTime s"
  "date_now (emit e s) = date_now s"
  "ws_readyState (emit e s) = ws_readyState s"
  "ws_send (emit e s) = ws_send s"
  "ws_listeners (emit e s) = ws_listeners s"
  "tr_send (emit e s) = tr_send s"
  "tr_close (emit e s) = tr_close s"
  "tr_onmessage (emit e s) = tr_onmessage s"
  "reactions (emit e s) = reactions s"
  "trace (emit e s) = trace s @ [e]"
  by (simp_all add: emit_def)

lemma log_fields [simp]:
  "proxyConnection (log l s) = proxyConnection s"
  "connectedTransport (log l s) = connectedTransport s"
  "isProxyConnected (log l s) = isProxyConnected s"
  "lastConnectionTime (log l s) = lastConnectionTime s"
  "date_now (log l s) = date_now s"
  "ws_readyState (log l s) = ws_readyState s"
  "ws_send (log l s) = ws_send s"
  "ws_listeners (log l s) = ws_listeners s"
  "tr_send (log l s) = tr_send s"
  "tr_close (log l s) = tr_close s"
  "tr_onmessage (log l s) = tr_onmessage s"
  "reactions (log l s) = reactions s"
  "trace (log l s) = trace s @ [Console l]"
  by (simp_all add: log_def)

lemma enqueue_fields [simp]:
  "proxyConnection (enqueue r s) = proxyConnection s"
  "connectedTransport (enqueue r s) = connectedTransport s"
  "isProxyConnected (enqueue r s) = isProxyConnected s"
  "lastConnectionTime (enqueue r s) = lastConnectionTime s"
  "date_now (enqueue r s) = date_now s"
  "ws_readyState (enqueue r s) = ws_readyState s"
  "ws_send (enqueue r s) = ws_send s"
  "ws_listeners (enqueue r s) = ws_listeners s"
  "tr_send (enqueue r s) = tr_send s"
  "tr_close (enqueue r s) = tr_close s"
  "tr_onmessage (enqueue r s) = tr_onmessage s"
  "reactions (enqueue r s) = reactions s @ [r]"
  "trace (enqueue r s) = trace s"
  by (simp_all add: enqueue_def)

lemma socket_sends_append: "socket_sends (xs @ ys) = socket_sends xs @ socket_sends ys"
  by (induction xs rule: socket_sends.induct) simp_all

lemma socket_sends_Console: "socket_sends (map Console ls) = []"
  by (induction ls) simp_all

subsection \<open>isConnected\<close>

lemma isConnected_result:
  "fst (isConnected s) =
     (case proxyConnection s of None \<Rightarrow> False
      | Some w \<Rightarrow> isProxyConnected s \<and> ws_readyState s w \<noteq> 3)"
  by (simp add: isConnected_def Let_def split: option.splits)

lemma isConnected_flag:
  "isProxyConnected (snd (isConnected s)) =
     (case proxyConnection s of None \<Rightarrow> isProxyConnected s
      | Some w \<Rightarrow> isProxyConnected s \<and> ws_readyState s w \<noteq> 3 \<and> ws_readyState s w \<noteq> 2)"
  by (auto simp add: isConnected_def Let_def log_def emit_def split: option.splits)

lemma isConnected_frame:
  "(snd (isConnected s))\<lparr>isProxyConnected := isProxyConnected s, trace := trace s\<rparr> = s"
  by (simp add: isConnected_def Let_def log_def emit_def split: option.splits)

lemma isConnected_trace:
  "\<exists>ls. trace (snd (isConnected s)) = trace s @ map Console ls"
proof -
  define rs where "rs = map_option (ws_readyState s) (proxyConnection s)"
  define up where "up \<longleftrightarrow> proxyConnection s \<noteq> None \<and> (rs = Some 3 \<or> rs = Some 2) \<and> isProxyConnected s"
  define ac where "ac \<longleftrightarrow> proxyConnection s \<noteq> None \<and> isProxyConnected s \<and> rs \<noteq> Some 3"
  define line where "line = Log_connection_check (proxyConnection s \<noteq> None) (isProxyConnected s) rs
       (readyStateText rs) (lastConnectionTime s) (date_now s - lastConnectionTime s) ac"
  have "trace (snd (isConnected s)) =
        trace s @ map Console ((if up then [Log_updating_state] else [])
                               @ (if \<not> ac \<or> rs \<noteq> Some 1 then [line] else []))"
    unfolding rs_def up_def ac_def line_def
    by (cases "proxyConnection s") (auto simp add: isConnected_def Let_def)
  then show ?thesis ..
qed

lemma isConnected_fields:
  "proxyConnection (snd (isConnected s)) = proxyConnection s"
  "connectedTransport (snd (isConnected s)) = connectedTransport s"
  "lastConnectionTime (snd (isConnected s)) = lastConnectionTime s"
  "date_now (snd (isConnected s)) = date_now s"
  "ws_readyState (snd (isConnected s)) = ws_readyState s"
  "ws_send (snd (isConnected s)) = ws_send s"
  "ws_listeners (snd (isConnected s)) = ws_listeners s"
  "tr_send (snd (isConnected s)) = tr_send s"
  "tr_close (snd (isConnected s)) = tr_close s"
  "tr_onmessage (snd (isConnected s)) = tr_onmessage s"
  "reactions (snd (isConnected s)) = reactions s"
  by (simp_all add: isConnected_def Let_def)

lemma isConnected_log: "fst (isConnected (log l s)) = fst (isConnected s)"
  by (simp add: isConnected_result split: option.splits)

lemma down_not_connected: "\<not> isProxyConnected s \<Longrightarrow> fst (isConnected s) = False"
  by (simp add: isConnected_result split: option.splits)

lemma isConnected_frame_log:
  "(snd (isConnected (log l s)))\<lparr>isProxyConnected := b, trace := tr\<rparr>
     = s\<lparr>isProxyConnected := b, trace := tr\<rparr>"
proof -
  have "(snd (isConnected (log l s)))\<lparr>isProxyConnected := b, trace := tr\<rparr>
      = ((snd (isConnected (log l s)))\<lparr>isProxyConnected := isProxyConnected (log l s),
            trace := trace (log l s)\<rparr>)\<lparr>isProxyConnected := b, trace := tr\<rparr>"
    by simp
  also have "\<dots> = (log l s)\<lparr>isProxyConnected := b, trace := tr\<rparr>"
    by (simp only: isConnected_frame)
  also have "\<dots> = s\<lparr>isProxyConnected := b, trace := tr\<rparr>"
    by (simp add: log_def emit_def)
  finally show ?thesis .
qed

lemma recheck_stays_down:
  "\<not> isProxyConnected s \<Longrightarrow> \<not> isProxyConnected (fold (\<lambda>g x. snd (recheck g x)) hs s)"
  by (induction hs arbitrary: s) (simp_all add: recheck_def isConnected_flag split: option.splits)

subsection \<open>forwardToProxy\<close>

lemma forwardToProxy_never_throws: "fst (forwardToProxy data s) = Inr ()"
  by (simp add: forwardToProxy_def Let_def split_beta split: option.splits call.splits)

lemma forwardToProxy_not_connected:
  assumes "fst (isConnected s) = False"
  shows "forwardToProxy data s =
           (Inr (), log (Warn_cannot_forward (preview data))
                      (log (Log_connection_status False)
                         (snd (isConnected (log Log_attempting_forward s)))))"
  using assms by (simp add: forwardToProxy_def Let_def split_beta isConnected_log)

lemma forwardToProxy_connected:
  assumes "fst (isConnected s) = True"
  shows "\<exists>w. proxyConnection s = Some w \<and> forwardToProxy data s =
           (let s5 = emit (Socket_send w data) (log Log_sending
                      (log (Log_connection_status True)
                         (snd (isConnected (log Log_attempting_forward s)))))
            in case ws_send s w data of
                 Returns u \<Rightarrow> (Inr (), s5)
               | Raises e \<Rightarrow> (Inr (), (log (Err_sending_to_proxy e) s5)\<lparr>isProxyConnected := False\<rparr>))"
proof -
  from assms obtain w where w: "proxyConnection s = Some w"
    by (auto simp add: isConnected_result split: option.splits)
  have "forwardToProxy data s =
           (let s5 = emit (Socket_send w data) (log Log_sending
                      (log (Log_connection_status True)
                         (snd (isConnected (log Log_attempting_forward s)))))
            in case ws_send s w data of
                 Returns u \<Rightarrow> (Inr (), s5)
               | Raises e \<Rightarrow> (Inr (), (log (Err_sending_to_proxy e) s5)\<lparr>isProxyConnected := False\<rparr>))"
    using w assms
    by (simp add: forwardToProxy_def Let_def split_beta isConnected_fields isConnected_log)
  with w show ?thesis by blast
qed

lemma forwardToProxy_frame:
  "(snd (forwardToProxy data s))\<lparr>isProxyConnected := isProxyConnected s, trace := trace s\<rparr> = s"
proof -
  have "(snd (forwardToProxy data s))\<lparr>isProxyConnected := isProxyConnected s, trace := trace s\<rparr>
      = (snd (isConnected (log Log_attempting_forward s)))
           \<lparr>isProxyConnected := isProxyConnected s, trace := trace s\<rparr>"
    by (simp add: forwardToProxy_def Let_def split_beta log_def emit_def
        split: option.splits call.splits)
  then show ?thesis by (simp add: isConnected_frame_log)
qed

lemma forwardToProxy_fields:
  "proxyConnection (snd (forwardToProxy data s)) = proxyConnection s"
  "connectedTransport (snd (forwardToProxy data s)) = connectedTransport s"
  "ws_readyState (snd (forwardToProxy data s)) = ws_readyState s"
  "ws_send (snd (forwardToProxy data s)) = ws_send s"
  "reactions (snd (forwardToProxy data s)) = reactions s"
  by (simp_all add: forwardToProxy_def Let_def split_beta isConnected_fields
      split: option.splits call.splits)

lemma forwardToProxy_dropped_trace:
  assumes "fst (isConnected s) = False"
  shows "\<exists>ls. trace (snd (forwardToProxy data s)) =
               trace s @ map Console (ls @ [Warn_cannot_forward (preview data)])"
proof -
  obtain ls where ls: "trace (snd (isConnected (log Log_attempting_forward s))) =
                       trace (log Log_attempting_forward s) @ map Console ls"
    using isConnected_trace by blast
  have "trace (snd (forwardToProxy data s)) =
        trace s @ map Console ((Log_attempting_forward # ls @ [Log_connection_status False])
                               @ [Warn_cannot_forward (preview data)])"
    by (simp add: forwardToProxy_not_connected [OF assms] ls)
  then show ?thesis ..
qed

lemma forwardToProxy_no_send:
  assumes "fst (isConnected s) = False"
  shows "socket_sends (trace (snd (forwardToProxy data s))) = socket_sends (trace s)"
proof -
  obtain ls where ls: "trace (snd (forwardToProxy data s)) =
               trace s @ map Console (ls @ [Warn_cannot_forward (preview data)])"
    using forwardToProxy_dropped_trace [OF assms] by blast
  show ?thesis
    unfolding ls by (simp only: socket_sends_append socket_sends_Console append_Nil2)
qed

lemma forwardToProxy_flag_mono:
  assumes down: "\<not> isProxyConnected s"
  shows "\<not> isProxyConnected (snd (forwardToProxy data s))"
proof -
  have "fst (isConnected s) = False"
    using down by (rule down_not_connected)
  then have "forwardToProxy data s =
           (Inr (), log (Warn_cannot_forward (preview data))
                      (log (Log_connection_status False)
                         (snd (isConnected (log Log_attempting_forward s)))))"
    by (rule forwardToProxy_not_connected)
  then show ?thesis using down
    by (simp add: isConnected_flag split: option.splits)
qed

lemma forward_all_down:
  "\<not> isProxyConnected s \<Longrightarrow>
   \<not> isProxyConnected (fold (\<lambda>d x. snd (forwardToProxy d x)) ds s)
   \<and> socket_sends (trace (fold (\<lambda>d x. snd (forwardToProxy d x)) ds s)) = socket_sends (trace s)"
proof (induction ds arbitrary: s)
  case Nil
  then show ?case by simp
next
  case (Cons d ds)
  have down: "\<not> isProxyConnected (snd (forwardToProxy d s))"
    using Cons.prems by (rule forwardToProxy_flag_mono)
  have "socket_sends (trace (snd (forwardToProxy d s))) = socket_sends (trace s)"
    using Cons.prems by (simp add: forwardToProxy_no_send down_not_connected)
  with Cons.IH [OF down] show ?case by simp
qed

text \<open>What a transport emits after \<^verbatim>\<open>connect\<close> goes to \<^verbatim>\<open>forwardToProxy\<close> as text.\<close>

lemma transport_onmessage_installed:
  assumes "connectedTransport s = None"
  shows "transport_onmessage stringify t m (snd (connect t s))
           = forwardToProxy (Text (stringify m)) (snd (connect t s))"
  using assms by (simp add: transport_onmessage_def connect_def Let_def)

subsection \<open>Transports and promise reactions\<close>

lemma transport_io_append: "transport_io (xs @ ys) = transport_io xs @ transport_io ys"
  by (simp add: transport_io_def)

lemma transport_io_simps:
  "transport_io [] = []"
  "transport_io (Console l # es) = transport_io es"
  "transport_io (Unhandled_rejection e # es) = transport_io es"
  "transport_io (Socket_send w d # es) = transport_io es"
  "transport_io (Transport_send t m # es) = Transport_send t m # transport_io es"
  "transport_io (Transport_close t # es) = Transport_close t # transport_io es"
  by (simp_all add: transport_io_def)

lemma finally_close_fields:
  "proxyConnection (finally_close s) = proxyConnection s"
  "connectedTransport (finally_close s) = connectedTransport s"
  "isProxyConnected (finally_close s) = isProxyConnected s"
  "reactions (finally_close s) = reactions s"
  by (simp_all add: finally_close_def Let_def split: option.splits call.splits settle.splits)

lemma finally_close_io:
  assumes "connectedTransport s = Some t" and "tr_close s t = Some c"
  shows "transport_io (trace (finally_close s)) = transport_io (trace s) @ [Transport_close t]"
  using assms
  by (simp add: finally_close_def Let_def transport_io_append transport_io_simps
      split: call.splits settle.splits)

lemma finally_close_trace: "\<exists>es. trace (finally_close s) = trace s @ es"
  by (simp add: finally_close_def Let_def split: option.splits call.splits settle.splits)

lemma run_reaction_fields:
  "proxyConnection (run_reaction r s) = proxyConnection s"
  "connectedTransport (run_reaction r s) = connectedTransport s"
  "isProxyConnected (run_reaction r s) = isProxyConnected s"
  by (induction r s rule: run_reaction.induct) (simp_all add: finally_close_fields)

lemma run_reaction_trace: "\<exists>es. trace (run_reaction r s) = trace s @ es"
  by (induction r s rule: run_reaction.induct) (simp_all add: finally_close_trace)

lemma run_reaction_queue: "\<exists>qs. reactions (run_reaction r s) = reactions s @ qs"
  by (induction r s rule: run_reaction.induct) (simp_all add: finally_close_fields)

declare run_reactions.simps [simp del]

lemma run_reactions_Nil: "reactions s = [] \<Longrightarrow> run_reactions s = s"
  by (subst run_reactions.simps) simp

lemma run_reactions_Cons:
  "reactions s = r # rs \<Longrightarrow> run_reactions s = run_reactions (run_reaction r (s\<lparr>reactions := rs\<rparr>))"
  by (subst run_reactions.simps) simp

lemma run_reactions_frame:
  "proxyConnection (run_reactions s) = proxyConnection s
   \<and> connectedTransport (run_reactions s) = connectedTransport s
   \<and> isProxyConnected (run_reactions s) = isProxyConnected s"
proof (induction s rule: run_reactions.induct)
  case (1 s)
  show ?case
  proof (cases "reactions s")
    case Nil
    then show ?thesis by (simp add: run_reactions_Nil)
  next
    case (Cons r rs)
    from "1.IH" [OF Cons] show ?thesis
      by (simp add: run_reactions_Cons [OF Cons] run_reaction_fields)
  qed
qed

lemma run_reactions_fields:
  "proxyConnection (run_reactions s) = proxyConnection s"
  "connectedTransport (run_reactions s) = connectedTransport s"
  "isProxyConnected (run_reactions s) = isProxyConnected s"
  by (simp_all add: run_reactions_frame)

lemma run_reactions_trace: "\<exists>es. trace (run_reactions s) = trace s @ es"
proof (induction s rule: run_reactions.induct)
  case (1 s)
  show ?case
  proof (cases "reactions s")
    case Nil
    then show ?thesis by (simp add: run_reactions_Nil)
  next
    case (Cons r rs)
    obtain es1 where a: "trace (run_reaction r (s\<lparr>reactions := rs\<rparr>)) = trace s @ es1"
      using run_reaction_trace [of r "s\<lparr>reactions := rs\<rparr>"] by auto
    obtain es2 where b: "trace (run_reactions (run_reaction r (s\<lparr>reactions := rs\<rparr>)))
                         = trace (run_reaction r (s\<lparr>reactions := rs\<rparr>)) @ es2"
      using "1.IH" [OF Cons] by blast
    have "trace (run_reactions s) = trace s @ (es1 @ es2)"
      by (simp add: run_reactions_Cons [OF Cons] a b)
    then show ?thesis ..
  qed
qed

text \<open>
  A rejected delivery that waits in the queue is logged when the queue runs, whatever
  else is waiting.
\<close>

lemma rejected_forward_logged:
  "After_forward (Rejects e) \<in> set (reactions s) \<Longrightarrow>
   Console (Err_forwarding_to_transport e)
     \<in> set (drop (length (trace s)) (trace (run_reactions s)))"
proof (induction s rule: run_reactions.induct)
  case (1 s)
  from "1.prems" obtain r rs where Cons: "reactions s = r # rs"
    by (cases "reactions s") auto
  let ?s' = "run_reaction r (s\<lparr>reactions := rs\<rparr>)"
  obtain es where es: "trace ?s' = trace s @ es"
    using run_reaction_trace [of r "s\<lparr>reactions := rs\<rparr>"] by auto
  obtain es' where es': "trace (run_reactions ?s') = trace ?s' @ es'"
    using run_reactions_trace by blast
  show ?case
  proof (cases "r = After_forward (Rejects e)")
    case True
    then have "trace ?s' = trace s @ [Console (Err_forwarding_to_transport e)]"
      by simp
    with es' show ?thesis
      by (simp add: run_reactions_Cons [OF Cons])
  next
    case False
    with "1.prems" Cons have "After_forward (Rejects e) \<in> set rs"
      by auto
    moreover obtain qs where "reactions ?s' = rs @ qs"
      using run_reaction_queue [of r "s\<lparr>reactions := rs\<rparr>"] by auto
    ultimately have "After_forward (Rejects e) \<in> set (reactions ?s')"
      by simp
    from "1.IH" [OF Cons this]
    have "Console (Err_forwarding_to_transport e)
            \<in> set (drop (length (trace ?s')) (trace (run_reactions ?s')))" .
    then show ?thesis
      using es es' by (simp add: run_reactions_Cons [OF Cons])
  qed
qed

subsection \<open>connect\<close>

lemma connect_with_previous:
  assumes "connectedTransport s = Some prev" and "tr_send s prev = Some f"
    and "f disconnectMessage = Returns pr"
  shows "connect t s =
     (Inr (), (log Log_setting_transport
                ((enqueue (After_disconnect pr)
                    (emit (Transport_send prev disconnectMessage) (log Log_new_transport s)))
                 \<lparr>connectedTransport := Some t\<rparr>))
              \<lparr>tr_onmessage := (tr_onmessage s)(t := Some Relay_forward)\<rparr>)"
  using assms by (simp add: connect_def Let_def)

text \<open>
  Whatever transport was current, the close that follows the notification goes to the
  transport that is current when the reaction runs: the one just installed.
\<close>

lemma connect_then_settle:
  assumes prev: "connectedTransport s = Some prev" and f: "tr_send s prev = Some f"
    and pr: "f disconnectMessage = Returns pr" and settled: "pr \<noteq> Pending"
    and c: "tr_close s t = Some c" and quiet: "reactions s = []"
  shows "transport_io (trace (snd (connect t s)))
           = transport_io (trace s) @ [Transport_send prev disconnectMessage]"
    and "transport_io (trace (run_reactions (snd (connect t s))))
           = transport_io (trace s) @ [Transport_send prev disconnectMessage, Transport_close t]"
proof -
  show "transport_io (trace (snd (connect t s)))
           = transport_io (trace s) @ [Transport_send prev disconnectMessage]"
    by (simp add: connect_with_previous [OF prev f pr] transport_io_append transport_io_simps)
  show "transport_io (trace (run_reactions (snd (connect t s))))
           = transport_io (trace s) @ [Transport_send prev disconnectMessage, Transport_close t]"
  proof (cases pr)
    case Fulfils
    then show ?thesis
      using c quiet
      by (simp add: connect_with_previous [OF prev f pr] run_reactions.simps finally_close_io
          finally_close_fields transport_io_append transport_io_simps)
  next
    case (Rejects e)
    then show ?thesis
      using c quiet
      by (simp add: connect_with_previous [OF prev f pr] run_reactions.simps finally_close_io
          finally_close_fields transport_io_append transport_io_simps)
  next
    case Pending
    with settled show ?thesis by simp
  qed
qed

subsection \<open>handleProxyMessage\<close>

lemma handleProxyMessage_never_throws: "fst (handleProxyMessage parse decode raw s) = Inr ()"
  by (simp add: handleProxyMessage_def split: prod.splits sum.splits)

lemma handleProxyMessage_fields:
  "proxyConnection (snd (handleProxyMessage parse decode raw s)) = proxyConnection s"
  "connectedTransport (snd (handleProxyMessage parse decode raw s)) = connectedTransport s"
  "isProxyConnected (snd (handleProxyMessage parse decode raw s)) = isProxyConnected s"
  by (simp_all add: handleProxyMessage_def handleProxyMessage_try_def Let_def
      split: option.splits call.splits)

lemma handleProxyMessage_syntax_error:
  assumes "parse (message_text decode raw) = None"
  shows "handleProxyMessage parse decode raw s
           = (Inr (), log (Err_parsing_proxy_message SyntaxError) s)"
  using assms by (simp add: handleProxyMessage_def handleProxyMessage_try_def)

lemma handleProxyMessage_no_transport:
  assumes "parse (message_text decode raw) = Some m" and "connectedTransport s = None"
  shows "handleProxyMessage parse decode raw s = (Inr (), s)"
  using assms by (simp add: handleProxyMessage_def handleProxyMessage_try_def)

lemma handleProxyMessage_deliver:
  assumes "parse (message_text decode raw) = Some m" and "connectedTransport s = Some t"
    and "tr_send s t = Some f"
  shows "handleProxyMessage parse decode raw s =
     (case f m of
        Raises e \<Rightarrow> (Inr (), log (Err_parsing_proxy_message e) (emit (Transport_send t m) s))
      | Returns pr \<Rightarrow> (Inr (), enqueue (After_forward pr) (emit (Transport_send t m) s)))"
  using assms
  by (simp add: handleProxyMessage_def handleProxyMessage_try_def Let_def split: call.splits)

subsection \<open>Listeners\<close>

lemma close_listeners_after_two:
  "\<exists>ls. filter (\<lambda>l. l = On_close)
          (ws_listeners (setProxyConnection (Some h2) (setProxyConnection (Some h1) s)) h1)
        = ls @ [On_close]"
proof (cases "h1 = h2")
  case True
  have "filter (\<lambda>l. l = On_close)
          (ws_listeners (setProxyConnection (Some h2) (setProxyConnection (Some h1) s)) h1)
        = (filter (\<lambda>l. l = On_close) (ws_listeners s h1) @ [On_close]) @ [On_close]"
    using True by (simp add: setProxyConnection_def addEventListener_def Let_def)
  then show ?thesis ..
next
  case False
  have "filter (\<lambda>l. l = On_close)
          (ws_listeners (setProxyConnection (Some h2) (setProxyConnection (Some h1) s)) h1)
        = filter (\<lambda>l. l = On_close) (ws_listeners s h1) @ [On_close]"
    using False by (simp add: setProxyConnection_def addEventListener_def Let_def)
  then show ?thesis ..
qed

section \<open>The connection state tracker\<close>

text \<open>
  Claim C2. In every state, \<^verbatim>\<open>isConnected()\<close> returns whether there is a handle, the
  declared flag is set and the readiness of the handle is not CLOSED (3), all three read
  at entry. The declared flag afterwards is the flag at entry, cleared
  exactly when there is a handle whose readiness is CLOSED (3) or CLOSING (2). Nothing
  else of the state changes: putting the old flag and the old trace back gives the state
  at entry, and the trace has only grown by console lines. The function has no throwing
  step, so its value is always a boolean.
\<close>

theorem isConnected_spec:
  "fst (isConnected s) =
      (case proxyConnection s of None \<Rightarrow> False
       | Some w \<Rightarrow> isProxyConnected s \<and> ws_readyState s w \<noteq> 3)
   \<and> isProxyConnected (snd (isConnected s)) =
      (case proxyConnection s of None \<Rightarrow> isProxyConnected s
       | Some w \<Rightarrow> isProxyConnected s \<and> ws_readyState s w \<noteq> 3 \<and> ws_readyState s w \<noteq> 2)
   \<and> (snd (isConnected s))\<lparr>isProxyConnected := isProxyConnected s, trace := trace s\<rparr> = s
   \<and> (\<exists>ls. trace (snd (isConnected s)) = trace s @ map Console ls)"
  using isConnected_result [of s] isConnected_flag [of s] isConnected_frame [of s]
    isConnected_trace [of s] by blast

theorem isConnected_spec_witness:
  "fst (isConnected (attached 7 2)) = True
   \<and> isProxyConnected (snd (isConnected (attached 7 2))) = False
   \<and> fst (isConnected (attached 7 3)) = False
   \<and> fst (isConnected (attached 7 1)) = True
   \<and> isProxyConnected (snd (isConnected (attached 7 1))) = True"
  using isConnected_spec [of "attached 7 2"] isConnected_spec [of "attached 7 3"]
    isConnected_spec [of "attached 7 1"]
  by (simp add: attached_def fresh_def)

text \<open>
  Claim C4. When the handle reports CLOSED (3) while the declared flag is still set, the
  next \<^verbatim>\<open>isConnected()\<close> returns false and clears the flag; and after any number of
  further calls, whatever the sockets report and whatever the clock shows at each of
  them, a call returns false and the flag is still cleared.
\<close>

theorem closed_handle_corrected:
  assumes "proxyConnection s = Some w" and "ws_readyState s w = 3" and "isProxyConnected s"
  shows "fst (isConnected s) = False
       \<and> \<not> isProxyConnected (snd (isConnected s))
       \<and> fst (recheck h (fold (\<lambda>g x. snd (recheck g x)) hs (snd (isConnected s)))) = False
       \<and> \<not> isProxyConnected
             (snd (recheck h (fold (\<lambda>g x. snd (recheck g x)) hs (snd (isConnected s)))))"
proof -
  have down: "\<not> isProxyConnected (snd (isConnected s))"
    using assms by (simp add: isConnected_flag)
  let ?sn = "fold (\<lambda>g x. snd (recheck g x)) hs (snd (isConnected s))"
  have sn: "\<not> isProxyConnected ?sn"
    using down by (rule recheck_stays_down)
  have "fst (recheck h ?sn) = False"
    using sn by (simp add: recheck_def isConnected_result split: option.splits)
  moreover have "\<not> isProxyConnected (snd (recheck h ?sn))"
    using sn by (simp add: recheck_def isConnected_flag split: option.splits)
  moreover have "fst (isConnected s) = False"
    using assms by (simp add: isConnected_result)
  ultimately show ?thesis using down by blast
qed

theorem closed_handle_corrected_witness:
  "proxyConnection (attached 7 3) = Some 7 \<and> ws_readyState (attached 7 3) 7 = 3
   \<and> isProxyConnected (attached 7 3)
   \<and> fst (isConnected (attached 7 3)) = False
   \<and> \<not> isProxyConnected (snd (isConnected (attached 7 3)))
   \<and> fst (recheck (\<lambda>w. 1, 3000)
            (fold (\<lambda>g x. snd (recheck g x)) [(\<lambda>w. 1, 2000)] (snd (isConnected (attached 7 3)))))
       = False"
proof -
  have a: "proxyConnection (attached 7 3) = Some 7"
    and b: "ws_readyState (attached 7 3) 7 = 3"
    and c: "isProxyConnected (attached 7 3)"
    by (simp_all add: attached_def fresh_def)
  show ?thesis
    using a b c closed_handle_corrected [OF a b c, of "(\<lambda>w. 1, 3000)" "[(\<lambda>w. 1, 2000)]"]
    by simp
qed

text \<open>
  Claim C5. After any sequence of \<^verbatim>\<open>setProxyConnection\<close> calls (with a socket or with
  null) that ends with \<^verbatim>\<open>setProxyConnection(null)\<close>, the handle is null, the declared
  flag is cleared and \<^verbatim>\<open>isConnected()\<close> is false. A \<^verbatim>\<open>forwardToProxy\<close> that follows
  returns normally, adds no send on any socket to the trace, and leaves
  \<^verbatim>\<open>isConnected()\<close> false.
\<close>

theorem after_setConnection_null:
  "proxyConnection (setProxyConnection None (fold setProxyConnection cmds s)) = None
   \<and> \<not> isProxyConnected (setProxyConnection None (fold setProxyConnection cmds s))
   \<and> fst (isConnected (setProxyConnection None (fold setProxyConnection cmds s))) = False
   \<and> fst (forwardToProxy data (setProxyConnection None (fold setProxyConnection cmds s))) = Inr ()
   \<and> socket_sends (trace (snd (forwardToProxy data
          (setProxyConnection None (fold setProxyConnection cmds s)))))
       = socket_sends (trace (setProxyConnection None (fold setProxyConnection cmds s)))
   \<and> fst (isConnected (snd (forwardToProxy data
          (setProxyConnection None (fold setProxyConnection cmds s))))) = False"
proof -
  let ?s1 = "setProxyConnection None (fold setProxyConnection cmds s)"
  have h: "proxyConnection ?s1 = None" and f: "\<not> isProxyConnected ?s1"
    by (simp_all add: setProxyConnection_def)
  have c: "fst (isConnected ?s1) = False"
    using f by (rule down_not_connected)
  have "fst (isConnected (snd (forwardToProxy data ?s1))) = False"
    using h by (simp add: isConnected_result forwardToProxy_fields)
  then show ?thesis
    using h f c forwardToProxy_never_throws [where data = data and s = ?s1]
      forwardToProxy_no_send [OF c, where data = data]
    by blast
qed

theorem after_setConnection_null_witness:
  "fst (isConnected (setProxyConnection None (fold setProxyConnection [Some 1, None, Some 2] fresh)))
     = False
   \<and> socket_sends (trace (snd (forwardToProxy (Text (lit ''x''))
          (setProxyConnection None (fold setProxyConnection [Some 1, None, Some 2] fresh))))) = []"
  using after_setConnection_null [of "[Some 1, None, Some 2]" fresh "Text (lit ''x'')"]
  by (simp add: setProxyConnection_def addEventListener_def fresh_def Let_def)

text \<open>
  Claim C10. After \<^verbatim>\<open>setProxyConnection(h1)\<close> and then \<^verbatim>\<open>setProxyConnection(h2)\<close>,
  the close listener registered on \<open>h1\<close> is still registered; \<open>h2\<close> is the handle, it is
  marked connected, and \<^verbatim>\<open>isConnected()\<close> is true unless \<open>h2\<close> reports CLOSED. When
  \<open>h1\<close> then fires its close event, the handle is null, the flag is cleared and
  \<^verbatim>\<open>isConnected()\<close> is false: the event of the superseded socket has disconnected
  \<open>h2\<close>.
\<close>

theorem stale_close_listener_disconnects:
  "On_close \<in> set (ws_listeners (setProxyConnection (Some h2) (setProxyConnection (Some h1) s)) h1)
   \<and> proxyConnection (setProxyConnection (Some h2) (setProxyConnection (Some h1) s)) = Some h2
   \<and> isProxyConnected (setProxyConnection (Some h2) (setProxyConnection (Some h1) s))
   \<and> fst (isConnected (setProxyConnection (Some h2) (setProxyConnection (Some h1) s)))
       = (ws_readyState s h2 \<noteq> 3)
   \<and> proxyConnection (dispatch On_close h1
        (setProxyConnection (Some h2) (setProxyConnection (Some h1) s))) = None
   \<and> \<not> isProxyConnected (dispatch On_close h1
        (setProxyConnection (Some h2) (setProxyConnection (Some h1) s)))
   \<and> fst (isConnected (dispatch On_close h1
        (setProxyConnection (Some h2) (setProxyConnection (Some h1) s)))) = False"
proof -
  let ?s2 = "setProxyConnection (Some h2) (setProxyConnection (Some h1) s)"
  obtain ls where ls: "filter (\<lambda>l. l = On_close) (ws_listeners ?s2 h1) = ls @ [On_close]"
    using close_listeners_after_two by blast
  have gone: "proxyConnection (dispatch On_close h1 ?s2) = None"
    and down: "\<not> isProxyConnected (dispatch On_close h1 ?s2)"
    unfolding dispatch_def ls by simp_all
  have c: "fst (isConnected (dispatch On_close h1 ?s2)) = False"
    using down by (rule down_not_connected)
  have reg: "On_close \<in> set (ws_listeners ?s2 h1)"
    by (simp add: setProxyConnection_def addEventListener_def Let_def)
  have cur: "proxyConnection ?s2 = Some h2" "isProxyConnected ?s2"
    "fst (isConnected ?s2) = (ws_readyState s h2 \<noteq> 3)"
    by (simp_all add: isConnected_result setProxyConnection_def addEventListener_def Let_def)
  show ?thesis
    using gone down c reg cur by blast
qed

theorem stale_close_listener_disconnects_witness:
  "fst (isConnected (setProxyConnection (Some 2) (setProxyConnection (Some 1) fresh))) = True
   \<and> ws_listeners (setProxyConnection (Some 2) (setProxyConnection (Some 1) fresh)) 1
       = [On_close, On_error]
   \<and> proxyConnection (dispatch On_close 1
        (setProxyConnection (Some 2) (setProxyConnection (Some 1) fresh))) = None
   \<and> fst (isConnected (dispatch On_close 1
        (setProxyConnection (Some 2) (setProxyConnection (Some 1) fresh)))) = False"
  using stale_close_listener_disconnects [of 2 1 fresh]
  by (simp add: setProxyConnection_def addEventListener_def Let_def fresh_def)

section \<open>The message router, towards the remote side\<close>

text \<open>
  Claim C6. When \<^verbatim>\<open>forwardToProxy\<close> finds the relay connected and the socket's
  \<^verbatim>\<open>send\<close> throws, the call still returns normally, the failure is logged, and the
  declared flag is cleared. The trace holds exactly one send of that payload more than
  before, and nothing but the flag and the trace has changed, so the payload is kept
  nowhere. Whatever payloads are forwarded afterwards, no further send is attempted.
  (\<^verbatim>\<open>WebSocket.send\<close> returns no promise, so throwing is the only way it fails.)
\<close>

theorem send_failure_downgrades:
  assumes "fst (isConnected s) = True" and "proxyConnection s = Some w"
    and "ws_send s w data = Raises e"
  shows "fst (forwardToProxy data s) = Inr ()
       \<and> \<not> isProxyConnected (snd (forwardToProxy data s))
       \<and> socket_sends (trace (snd (forwardToProxy data s))) = socket_sends (trace s) @ [(w, data)]
       \<and> last (trace (snd (forwardToProxy data s))) = Console (Err_sending_to_proxy e)
       \<and> (snd (forwardToProxy data s))\<lparr>isProxyConnected := isProxyConnected s, trace := trace s\<rparr> = s
       \<and> socket_sends (trace (fold (\<lambda>d x. snd (forwardToProxy d x)) ds (snd (forwardToProxy data s))))
           = socket_sends (trace s) @ [(w, data)]"
proof -
  obtain ls where ls: "trace (snd (isConnected (log Log_attempting_forward s))) =
                       trace (log Log_attempting_forward s) @ map Console ls"
    using isConnected_trace by blast
  obtain w' where w': "proxyConnection s = Some w'" and eq: "forwardToProxy data s =
           (let s5 = emit (Socket_send w' data) (log Log_sending
                      (log (Log_connection_status True)
                         (snd (isConnected (log Log_attempting_forward s)))))
            in case ws_send s w' data of
                 Returns u \<Rightarrow> (Inr (), s5)
               | Raises e \<Rightarrow> (Inr (), (log (Err_sending_to_proxy e) s5)\<lparr>isProxyConnected := False\<rparr>))"
    using forwardToProxy_connected [OF assms(1), of data] by blast
  from w' assms(2) have [simp]: "w' = w" by simp
  have down: "\<not> isProxyConnected (snd (forwardToProxy data s))"
    by (simp add: eq assms(3))
  have tr: "trace (snd (forwardToProxy data s)) =
        (trace s @ map Console (Log_attempting_forward # ls @ [Log_connection_status True, Log_sending]))
         @ [Socket_send w data] @ [Console (Err_sending_to_proxy e)]"
    by (simp add: eq assms(3) ls)
  have sends: "socket_sends (trace (snd (forwardToProxy data s))) = socket_sends (trace s) @ [(w, data)]"
    unfolding tr by (simp only: socket_sends_append socket_sends_Console) simp
  have lst: "last (trace (snd (forwardToProxy data s))) = Console (Err_sending_to_proxy e)"
    unfolding tr by simp
  show ?thesis
    using down sends lst forwardToProxy_never_throws [where data = data and s = s]
      forwardToProxy_frame [where data = data and s = s]
      forward_all_down [OF down, where ds = ds]
    by simp
qed

theorem send_failure_downgrades_witness:
  "fst (isConnected ((attached 7 1)\<lparr>ws_send := (\<lambda>w d. Raises (HostError 1))\<rparr>)) = True
   \<and> proxyConnection ((attached 7 1)\<lparr>ws_send := (\<lambda>w d. Raises (HostError 1))\<rparr>) = Some 7
   \<and> ws_send ((attached 7 1)\<lparr>ws_send := (\<lambda>w d. Raises (HostError 1))\<rparr>) 7 (Text (lit ''x''))
       = Raises (HostError 1)
   \<and> \<not> isProxyConnected (snd (forwardToProxy (Text (lit ''x''))
          ((attached 7 1)\<lparr>ws_send := (\<lambda>w d. Raises (HostError 1))\<rparr>)))
   \<and> socket_sends (trace (fold (\<lambda>d x. snd (forwardToProxy d x)) [Text (lit ''y''), Binary [0]]
          (snd (forwardToProxy (Text (lit ''x''))
             ((attached 7 1)\<lparr>ws_send := (\<lambda>w d. Raises (HostError 1))\<rparr>)))))
       = [(7, Text (lit ''x''))]"
proof -
  let ?s = "(attached 7 1)\<lparr>ws_send := (\<lambda>w d. Raises (HostError 1))\<rparr>"
  have a: "fst (isConnected ?s) = True"
    by (simp add: isConnected_result attached_def fresh_def)
  have b: "proxyConnection ?s = Some 7"
    by (simp add: attached_def fresh_def)
  have c: "ws_send ?s 7 (Text (lit ''x'')) = Raises (HostError 1)"
    by simp
  have t: "trace ?s = []"
    by (simp add: attached_def fresh_def)
  show ?thesis
    using a b c t
      send_failure_downgrades [OF a b c, where ds = "[Text (lit ''y''), Binary [0]]"]
    by simp
qed

text \<open>
  Claim C7. When \<^verbatim>\<open>isConnected()\<close> is false at the start of \<^verbatim>\<open>forwardToProxy\<close>, the
  call returns normally, adds no send on any socket, and adds console lines only, the
  last of which is the warning with the preview of the payload: the first 100 code units
  of a text followed by three dots, the fixed text \<^verbatim>\<open>[Binary Data]\<close> for bytes. Nothing
  but the flag and the trace changes, so the payload is dropped.
\<close>

theorem forward_when_disconnected:
  assumes "fst (isConnected s) = False"
  shows "fst (forwardToProxy data s) = Inr ()
       \<and> socket_sends (trace (snd (forwardToProxy data s))) = socket_sends (trace s)
       \<and> (\<exists>ls. trace (snd (forwardToProxy data s)) =
                 trace s @ map Console (ls @ [Warn_cannot_forward (preview data)]))
       \<and> (snd (forwardToProxy data s))\<lparr>isProxyConnected := isProxyConnected s, trace := trace s\<rparr> = s
       \<and> (case data of Text t \<Rightarrow> preview data = take 100 t @ lit ''...''
                      | Binary b \<Rightarrow> preview data = lit ''[Binary Data]'')"
proof -
  have "case data of Text t \<Rightarrow> preview data = take 100 t @ lit ''...''
                      | Binary b \<Rightarrow> preview data = lit ''[Binary Data]''"
    by (simp add: preview_def split: payload.splits)
  then show ?thesis
    using forwardToProxy_dropped_trace [OF assms, where data = data]
      forwardToProxy_no_send [OF assms, where data = data]
      forwardToProxy_never_throws [where data = data and s = s]
      forwardToProxy_frame [where data = data and s = s]
    by blast
qed

theorem forward_when_disconnected_witness:
  "fst (isConnected fresh) = False
   \<and> fst (forwardToProxy (Binary [1, 2, 3]) fresh) = Inr ()
   \<and> socket_sends (trace (snd (forwardToProxy (Binary [1, 2, 3]) fresh))) = []
   \<and> preview (Binary [1, 2, 3]) = lit ''[Binary Data]''"
proof -
  have a: "fst (isConnected fresh) = False"
    by (simp add: isConnected_result fresh_def)
  have t: "trace fresh = []"
    by (simp add: fresh_def)
  show ?thesis
    using a t forward_when_disconnected [OF a, of "Binary [1, 2, 3]"]
    by simp
qed

section \<open>The message router, towards the local side\<close>

text \<open>
  Claim C8, as the code has it. When \<^verbatim>\<open>JSON.parse\<close> throws on the text of the payload,
  \<^verbatim>\<open>handleProxyMessage\<close> returns normally and the only change is one console line that
  records the error: nothing is sent to a transport and nothing is queued. When the text
  parses and there is no current transport, the call returns normally and changes
  nothing at all.
\<close>

theorem malformed_or_no_transport_dropped:
  "(parse (message_text decode raw) = None \<longrightarrow>
       handleProxyMessage parse decode raw s
         = (Inr (), log (Err_parsing_proxy_message SyntaxError) s)
     \<and> transport_io (trace (snd (handleProxyMessage parse decode raw s))) = transport_io (trace s))
   \<and> (parse (message_text decode raw') = Some m \<and> connectedTransport s' = None \<longrightarrow>
       handleProxyMessage parse decode raw' s' = (Inr (), s'))"
  by (simp add: handleProxyMessage_syntax_error handleProxyMessage_no_transport
      transport_io_append transport_io_simps)

theorem malformed_or_no_transport_dropped_witness:
  "sample_parse (message_text ascii_decode (Text (lit ''not json''))) = None
   \<and> transport_io (trace (snd (handleProxyMessage sample_parse ascii_decode (Text (lit ''not json''))
         (snd (connect 1 fresh))))) = []
   \<and> sample_parse (message_text ascii_decode (Binary ping_result_text)) = Some ping_result
   \<and> connectedTransport fresh = None
   \<and> handleProxyMessage sample_parse ascii_decode (Binary ping_result_text) fresh = (Inr (), fresh)"
proof -
  have a: "sample_parse (message_text ascii_decode (Text (lit ''not json''))) = None"
    by (simp add: sample_parse_def message_text_def lit_def ping_result_text_def)
  have b: "sample_parse (message_text ascii_decode (Binary ping_result_text)) = Some ping_result"
    by (simp add: sample_parse_def message_text_def ascii_decode_def lit_def ping_result_text_def)
  have c: "connectedTransport fresh = None"
    by (simp add: fresh_def)
  have t: "transport_io (trace (snd (connect 1 fresh))) = []"
    by (simp add: connect_def fresh_def Let_def transport_io_simps)
  show ?thesis
    using a b c t
      malformed_or_no_transport_dropped [of sample_parse ascii_decode "Text (lit ''not json'')"
        "snd (connect 1 fresh)" "Binary ping_result_text" ping_result fresh]
    by (simp add: transport_io_append transport_io_simps)
qed

text \<open>
  Claim C8 as stated fails. The text \<^verbatim>\<open>null\<close> is valid JSON and its value is no
  \<^verbatim>\<open>JSONRPCMessage\<close>, so the payload does not parse as an envelope; yet with transport 1
  current the value is handed to \<^verbatim>\<open>send\<close> of transport 1.
\<close>

theorem unvalidated_json_is_delivered:
  "sample_parse (message_text ascii_decode (Text (lit ''null''))) = Some JNull
   \<and> \<not> is_JSONRPCMessage JNull
   \<and> connectedTransport (snd (connect 1 fresh)) = Some 1
   \<and> transport_io (trace (snd (connect 1 fresh))) = []
   \<and> transport_io (trace (snd (handleProxyMessage sample_parse ascii_decode (Text (lit ''null''))
         (snd (connect 1 fresh))))) = [Transport_send 1 JNull]"
  by (simp add: sample_parse_def message_text_def handleProxyMessage_def
      handleProxyMessage_try_def connect_def fresh_def Let_def transport_io_simps
      transport_io_append)

text \<open>
  Claim C9. A parsed message is delivered to the current transport \<open>t\<close>. If \<^verbatim>\<open>send\<close>
  throws, the error is logged by the \<^verbatim>\<open>catch\<close> of \<^verbatim>\<open>handleProxyMessage\<close>. If it
  returns a promise that is rejected, the error is logged when the waiting jobs run,
  whatever other jobs are waiting; when none was waiting, that line is all the jobs add.
  In both cases, and in every other, the call returns normally, and after the jobs have
  run the current transport is still \<open>t\<close> and the handle and the declared flag are what
  they were.
\<close>

theorem delivery_failure_contained:
  assumes "parse (message_text decode raw) = Some m" and "connectedTransport s = Some t"
    and "tr_send s t = Some f"
  shows "(f m = Raises e \<longrightarrow>
            handleProxyMessage parse decode raw s
              = (Inr (), log (Err_parsing_proxy_message e) (emit (Transport_send t m) s)))
       \<and> (f m = Returns (Rejects e) \<longrightarrow>
            handleProxyMessage parse decode raw s
              = (Inr (), enqueue (After_forward (Rejects e)) (emit (Transport_send t m) s))
          \<and> Console (Err_forwarding_to_transport e)
              \<in> set (drop (length (trace (snd (handleProxyMessage parse decode raw s))))
                          (trace (run_reactions (snd (handleProxyMessage parse decode raw s))))))
       \<and> (f m = Returns (Rejects e) \<and> reactions s = [] \<longrightarrow>
            trace (run_reactions (snd (handleProxyMessage parse decode raw s)))
              = trace s @ [Transport_send t m, Console (Err_forwarding_to_transport e)])
       \<and> fst (handleProxyMessage parse decode raw s) = Inr ()
       \<and> connectedTransport (run_reactions (snd (handleProxyMessage parse decode raw s))) = Some t
       \<and> proxyConnection (run_reactions (snd (handleProxyMessage parse decode raw s)))
           = proxyConnection s
       \<and> isProxyConnected (run_reactions (snd (handleProxyMessage parse decode raw s)))
           = isProxyConnected s"
proof -
  have d: "handleProxyMessage parse decode raw s =
     (case f m of
        Raises e \<Rightarrow> (Inr (), log (Err_parsing_proxy_message e) (emit (Transport_send t m) s))
      | Returns pr \<Rightarrow> (Inr (), enqueue (After_forward pr) (emit (Transport_send t m) s)))"
    using assms by (rule handleProxyMessage_deliver)
  have frame:
    "connectedTransport (run_reactions (snd (handleProxyMessage parse decode raw s))) = Some t"
    "proxyConnection (run_reactions (snd (handleProxyMessage parse decode raw s)))
       = proxyConnection s"
    "isProxyConnected (run_reactions (snd (handleProxyMessage parse decode raw s)))
       = isProxyConnected s"
    using assms(2) by (simp_all add: run_reactions_fields handleProxyMessage_fields)
  have rej: "Console (Err_forwarding_to_transport e)
              \<in> set (drop (length (trace (snd (handleProxyMessage parse decode raw s))))
                          (trace (run_reactions (snd (handleProxyMessage parse decode raw s)))))"
    if "f m = Returns (Rejects e)"
  proof (rule rejected_forward_logged)
    show "After_forward (Rejects e) \<in> set (reactions (snd (handleProxyMessage parse decode raw s)))"
      using that by (simp add: d)
  qed
  have alone: "trace (run_reactions (snd (handleProxyMessage parse decode raw s)))
              = trace s @ [Transport_send t m, Console (Err_forwarding_to_transport e)]"
    if "f m = Returns (Rejects e)" and "reactions s = []"
    using that by (simp add: d run_reactions.simps)
  show ?thesis
    using frame rej alone handleProxyMessage_never_throws [of parse decode raw s]
    by (simp add: d)
qed

theorem delivery_failure_contained_witness:
  "sample_parse (message_text ascii_decode (Text ping_result_text)) = Some ping_result
   \<and> connectedTransport (failing_sink (Raises (HostError 5))) = Some 1
   \<and> handleProxyMessage sample_parse ascii_decode (Text ping_result_text)
         (failing_sink (Raises (HostError 5)))
       = (Inr (), log (Err_parsing_proxy_message (HostError 5))
                    (emit (Transport_send 1 ping_result) (failing_sink (Raises (HostError 5)))))
   \<and> connectedTransport (run_reactions (snd (handleProxyMessage sample_parse ascii_decode
         (Text ping_result_text) (failing_sink (Raises (HostError 5)))))) = Some 1
   \<and> connectedTransport (failing_sink (Returns (Rejects (HostError 6)))) = Some 1
   \<and> reactions (failing_sink (Returns (Rejects (HostError 6)))) = []
   \<and> trace (run_reactions (snd (handleProxyMessage sample_parse ascii_decode
         (Text ping_result_text) (failing_sink (Returns (Rejects (HostError 6)))))))
       = trace (failing_sink (Returns (Rejects (HostError 6))))
         @ [Transport_send 1 ping_result, Console (Err_forwarding_to_transport (HostError 6))]
   \<and> connectedTransport (run_reactions (snd (handleProxyMessage sample_parse ascii_decode
         (Text ping_result_text) (failing_sink (Returns (Rejects (HostError 6))))))) = Some 1"
proof -
  have p: "sample_parse (message_text ascii_decode (Text ping_result_text)) = Some ping_result"
    by (simp add: sample_parse_def message_text_def lit_def ping_result_text_def)
  have t: "connectedTransport (failing_sink c) = Some 1" for c
    by (simp add: failing_sink_def connect_def fresh_def Let_def)
  have f: "tr_send (failing_sink c) 1 = Some (\<lambda>m. c)" for c
    by (simp add: failing_sink_def)
  have q: "reactions (failing_sink c) = []" for c
    by (simp add: failing_sink_def connect_def fresh_def Let_def)
  note thrown = delivery_failure_contained [where parse = sample_parse and decode = ascii_decode
        and f = "\<lambda>m. Raises (HostError 5)" and e = "HostError 5", OF p t f, simplified]
  note rejected = delivery_failure_contained [where parse = sample_parse and decode = ascii_decode
        and f = "\<lambda>m. Returns (Rejects (HostError 6))" and e = "HostError 6", OF p t f,
        simplified q, simplified]
  show ?thesis
    using p t [of "Raises (HostError 5)"] t [of "Returns (Rejects (HostError 6))"]
      q [of "Returns (Rejects (HostError 6))"] thrown rejected
    unfolding One_nat_def by blast
qed

text \<open>
  The order of jobs. Transport 2 has taken over from transport 1, whose \<^verbatim>\<open>send\<close>
  promise is fulfilled, and before the jobs run a message arrives whose delivery to
  transport 2 is rejected. The rejection is logged first and the \<^verbatim>\<open>close\<close> of the
  takeover comes last, since the \<^verbatim>\<open>.finally\<close> job is queued behind the \<^verbatim>\<open>.catch\<close>
  of the delivery.
\<close>

lemma forward_log_precedes_takeover_close:
  "trace (run_reactions (snd (handleProxyMessage sample_parse ascii_decode (Text ping_result_text)
       ((snd (connect 2 (snd (connect 1 fresh))))
          \<lparr>tr_send := (\<lambda>t. Some (\<lambda>m. Returns (Rejects (HostError 6))))\<rparr>))))
     = [Console Log_setting_transport, Console Log_new_transport,
        Transport_send 1 disconnectMessage, Console Log_setting_transport,
        Transport_send 2 ping_result, Console (Err_forwarding_to_transport (HostError 6)),
        Transport_close 2]"
  by (simp add: handleProxyMessage_def handleProxyMessage_try_def sample_parse_def
      message_text_def ping_result_text_def lit_def connect_def run_reactions.simps
      finally_close_def fresh_def Let_def)

section \<open>The session manager\<close>

text \<open>
  Claim C1, evaluated where the code departs from it. Transport 1 connects to a new
  relay; then transport 2 connects. The second \<^verbatim>\<open>connect\<close> returns normally with
  transport 2 current, and by then one \<^verbatim>\<open>notifications/cancelled\<close> message has been
  sent to transport 1 and nothing has been closed. When the waiting jobs run, the one
  \<^verbatim>\<open>close\<close> is called on transport 2, the transport that has just been installed, and
  transport 1 is never closed: the callback reads \<^verbatim>\<open>this.connectedTransport\<close> when it
  runs, after the field was assigned, although the source says
  \<^verbatim>\<open>Close the previous transport\<close> there.
\<close>

theorem takeover_closes_incoming_transport:
  "fst (connect 1 fresh) = Inr ()
   \<and> connectedTransport (run_reactions (snd (connect 1 fresh))) = Some 1
   \<and> transport_io (trace (run_reactions (snd (connect 1 fresh)))) = []
   \<and> fst (connect 2 (run_reactions (snd (connect 1 fresh)))) = Inr ()
   \<and> connectedTransport (snd (connect 2 (run_reactions (snd (connect 1 fresh))))) = Some 2
   \<and> transport_io (trace (snd (connect 2 (run_reactions (snd (connect 1 fresh))))))
       = [Transport_send 1 disconnectMessage]
   \<and> transport_io (trace (run_reactions (snd (connect 2 (run_reactions (snd (connect 1 fresh)))))))
       = [Transport_send 1 disconnectMessage, Transport_close 2]"
  by (simp add: connect_def run_reactions.simps finally_close_def fresh_def Let_def
      transport_io_simps transport_io_append)

text \<open>
  Two more runs of the same takeover. When \<^verbatim>\<open>send\<close> of transport 1 throws instead of
  returning a promise, nothing catches it: the promise of \<^verbatim>\<open>connect\<close> is rejected and
  transport 1 stays current. When \<^verbatim>\<open>close\<close> returns a promise that is rejected,
  nothing handles the rejection and the relay logs nothing about it.
\<close>

lemma takeover_send_throws:
  "connectedTransport (failing_sink (Raises (HostError 5))) = Some 1
   \<and> fst (connect 2 (failing_sink (Raises (HostError 5)))) = Inl (HostError 5)
   \<and> connectedTransport (snd (connect 2 (failing_sink (Raises (HostError 5))))) = Some 1"
  by (simp add: failing_sink_def connect_def fresh_def Let_def)

lemma takeover_close_rejected:
  "trace (run_reactions (snd (connect 2
       ((snd (connect 1 fresh))\<lparr>tr_close := (\<lambda>t. Some (Returns (Rejects (HostError 7))))\<rparr>))))
     = [Console Log_setting_transport, Console Log_new_transport,
        Transport_send 1 disconnectMessage, Console Log_setting_transport,
        Transport_close 2, Unhandled_rejection (HostError 7)]"
  by (simp add: connect_def run_reactions.simps finally_close_def fresh_def Let_def)

text \<open>
  Claim C3, as the code has it. \<^verbatim>\<open>connect\<close> does not compare the incoming transport
  with the current one. When \<open>t\<close> is current already, has a \<^verbatim>\<open>send\<close> whose promise
  settles and a \<^verbatim>\<open>close\<close>, and no reaction is pending, \<^verbatim>\<open>connect(t)\<close> sends the
  \<^verbatim>\<open>notifications/cancelled\<close> message to \<open>t\<close> and, when the reactions run, closes
  \<open>t\<close>; \<open>t\<close> stays current. The handler is installed on \<open>t\<close>, and installing it once
  more changes nothing.
\<close>

theorem reconnect_same_transport:
  assumes "connectedTransport s = Some t" and "tr_send s t = Some f"
    and "f disconnectMessage = Returns pr" and "pr \<noteq> Pending"
    and "tr_close s t = Some c" and "reactions s = []"
  shows "fst (connect t s) = Inr ()
       \<and> connectedTransport (snd (connect t s)) = Some t
       \<and> tr_onmessage (snd (connect t s)) = (tr_onmessage s)(t := Some Relay_forward)
       \<and> tr_onmessage (snd (connect t (snd (connect t s)))) = tr_onmessage (snd (connect t s))
       \<and> transport_io (trace (snd (connect t s)))
           = transport_io (trace s) @ [Transport_send t disconnectMessage]
       \<and> transport_io (trace (run_reactions (snd (connect t s))))
           = transport_io (trace s) @ [Transport_send t disconnectMessage, Transport_close t]"
proof -
  note eq = connect_with_previous [OF assms(1-3), of t]
  have again: "tr_onmessage (snd (connect t (snd (connect t s)))) = tr_onmessage (snd (connect t s))"
  proof -
    have "connectedTransport (snd (connect t s)) = Some t"
      and "tr_send (snd (connect t s)) t = Some f"
      using assms(2) by (simp_all add: eq)
    from connect_with_previous [OF this assms(3), of t] show ?thesis
      by (simp add: eq)
  qed
  have "fst (connect t s) = Inr ()" "connectedTransport (snd (connect t s)) = Some t"
    "tr_onmessage (snd (connect t s)) = (tr_onmessage s)(t := Some Relay_forward)"
    by (simp_all add: eq)
  with again connect_then_settle [OF assms] show ?thesis by blast
qed

theorem reconnect_same_transport_witness:
  "connectedTransport (snd (connect 1 fresh)) = Some 1
   \<and> reactions (snd (connect 1 fresh)) = []
   \<and> tr_onmessage (snd (connect 1 (snd (connect 1 fresh)))) = tr_onmessage (snd (connect 1 fresh))
   \<and> transport_io (trace (run_reactions (snd (connect 1 (snd (connect 1 fresh))))))
       = [Transport_send 1 disconnectMessage, Transport_close 1]"
proof -
  let ?s = "snd (connect 1 fresh)"
  have t: "connectedTransport ?s = Some 1" and q: "reactions ?s = []"
    and f: "tr_send ?s 1 = Some (\<lambda>m. Returns Fulfils)"
    and c: "tr_close ?s 1 = Some (Returns Fulfils)"
    and io: "transport_io (trace ?s) = []"
    and h: "tr_onmessage ?s 1 = Some Relay_forward"
    by (simp_all add: connect_def fresh_def Let_def transport_io_simps)
  have r: "(\<lambda>m. Returns Fulfils) disconnectMessage = Returns Fulfils" by simp
  have p: "Fulfils \<noteq> Pending" by simp
  note inst = reconnect_same_transport [where f = "\<lambda>m. Returns Fulfils", OF t f r p c q]
  show ?thesis
    using t q io h inst by (simp add: fun_upd_idem)
qed

text \<open>
  Claim C3 as stated fails. Transport 1 connects to a new relay and then connects again:
  the second \<^verbatim>\<open>connect\<close> sends the notification to transport 1 and, when the reactions
  run, closes it.
\<close>

theorem reconnect_same_transport_retires:
  "connectedTransport (snd (connect 1 fresh)) = Some 1
   \<and> transport_io (trace (snd (connect 1 fresh))) = []
   \<and> transport_io (trace (snd (connect 1 (snd (connect 1 fresh)))))
       = [Transport_send 1 disconnectMessage]
   \<and> transport_io (trace (run_reactions (snd (connect 1 (snd (connect 1 fresh))))))
       = [Transport_send 1 disconnectMessage, Transport_close 1]"
  by (simp add: connect_def run_reactions.simps finally_close_def fresh_def Let_def
      transport_io_simps transport_io_append)

end
